theory Spec2Isabelle
  imports Complex_Main "HOL-Library.Word"
begin

section \<open>JavaScript strings\<close>

text \<open>
  A JavaScript string is a sequence of UTF-16 code units. \<open>js\<close> writes a literal.
\<close>

type_synonym jschar = "16 word"
type_synonym jsstring = "jschar list"
type_synonym blob = "8 word list"

abbreviation js :: "string \<Rightarrow> jsstring" where
  "js s \<equiv> map of_char s"

text \<open>
  The code units that ECMAScript counts as white space or as a line terminator: what
  \<open>String.prototype.trim\<close> strips and what \<open>\s\<close> matches in a regular expression.
\<close>

definition isWhiteSpace :: "jschar \<Rightarrow> bool" where
  "isWhiteSpace c \<longleftrightarrow>
     c \<in> set [0x0009, 0x000A, 0x000B, 0x000C, 0x000D, 0x0020, 0x00A0, 0x1680,
              0x2000, 0x2001, 0x2002, 0x2003, 0x2004, 0x2005, 0x2006, 0x2007,
              0x2008, 0x2009, 0x200A, 0x2028, 0x2029, 0x202F, 0x205F, 0x3000, 0xFEFF]"

definition trim :: "jsstring \<Rightarrow> jsstring" where
  "trim s = rev (dropWhile isWhiteSpace (rev (dropWhile isWhiteSpace s)))"

text \<open>
  \<open>s.replace(/\s+/g, '_')\<close>: every maximal run of white space becomes one underscore.
  The flag says that the previous code unit was white space already.
\<close>

fun replaceRuns :: "bool \<Rightarrow> jsstring \<Rightarrow> jsstring" where
  "replaceRuns inRun [] = []"
| "replaceRuns inRun (c # cs) =
     (if isWhiteSpace c
      then (if inRun then replaceRuns True cs else 0x5F # replaceRuns True cs)
      else c # replaceRuns False cs)"

definition replaceWhitespace :: "jsstring \<Rightarrow> jsstring" where
  "replaceWhitespace s = replaceRuns False s"

text \<open>The decimal digits of a natural number, as a template literal prints it.\<close>

definition digitChar :: "nat \<Rightarrow> jschar" where
  "digitChar d = of_nat (48 + d)"

fun decimal :: "nat \<Rightarrow> jsstring" where
  "decimal n = (if n < 10 then [digitChar n] else decimal (n div 10) @ [digitChar (n mod 10)])"

declare decimal.simps [simp del]

section \<open>The data model of types.ts\<close>

record NoteEvent =
  "note" :: jsstring
  duration :: jsstring
  time :: jsstring
  velocity :: real

text \<open>
  \<open>instrument: 'synth' | 'bass' | 'drums' | 'pad'\<close>: a union of four string literal
  types. \<open>instrumentName\<close> is the string a value of the union is at run time.
\<close>

datatype Instrument = Synth | Bass | Drums | Pad

fun instrumentName :: "Instrument \<Rightarrow> jsstring" where
  "instrumentName Synth = js ''synth''"
| "instrumentName Bass = js ''bass''"
| "instrumentName Drums = js ''drums''"
| "instrumentName Pad = js ''pad''"

record TrackData =
  name :: jsstring
  instrument :: Instrument
  "notes" :: "NoteEvent list"
  color :: jsstring

record Composition =
  title :: jsstring
  bpm :: real
  scale :: jsstring
  mood :: jsstring
  tracks :: "TrackData list"
  description :: jsstring

datatype GenerationState = IDLE | THINKING | COMPOSING | READY | ERROR

text \<open>
  \<open>AudioAnalysis\<close>: a \<open>Float32Array\<close> of samples, here real numbers, and a
  \<open>Uint8Array\<close> of magnitudes.
\<close>

record AudioAnalysis =
  waveform :: "real list"
  frequency :: "8 word list"

text \<open>The export formats the paywall can hold: \<open>'midi' | 'wav' | 'html'\<close>.\<close>

datatype ExportType = Midi | Wav | Html

text \<open>
  The error taxonomy of the engine. A time or pitch error carries the offending token.
\<close>

datatype engine_error =
    MalformedTimeToken jsstring
  | PitchOutOfRange jsstring
  | InvalidComposition
  | AudioInitError
  | ExportError

section \<open>TimeModel\<close>

text \<open>
  Modelled from the spec: the TimeModel lives in services/audioEngine, which is not among
  the sources. Section 4.1: a position token is \<open>bar:beat:sixteenth\<close>, each a non-negative
  integer; a duration token is \<open>Nn\<close> (a 1/N note) or \<open>Nm\<close> (N measures) with N positive;
  anything else is a \<open>MalformedTimeToken\<close>. Seconds are real numbers here.
\<close>

definition beatDuration :: "real \<Rightarrow> real" where
  "beatDuration tempo = 60 / tempo"

definition isDigit :: "jschar \<Rightarrow> bool" where
  "isDigit c \<longleftrightarrow> 0x30 \<le> c \<and> c \<le> 0x39"

definition digitValue :: "jschar \<Rightarrow> nat" where
  "digitValue c = unat c - 48"

definition parseNat :: "jsstring \<Rightarrow> nat option" where
  "parseNat ds =
     (if ds \<noteq> [] \<and> list_all isDigit ds
      then Some (foldl (\<lambda>acc d. 10 * acc + digitValue d) 0 ds)
      else None)"

fun splitOn :: "jschar \<Rightarrow> jsstring \<Rightarrow> jsstring list" where
  "splitOn sep [] = [[]]"
| "splitOn sep (c # cs) =
     (if c = sep then [] # splitOn sep cs
      else (case splitOn sep cs of [] \<Rightarrow> [[c]] | p # ps \<Rightarrow> (c # p) # ps))"

definition parsePosition :: "jsstring \<Rightarrow> engine_error + nat \<times> nat \<times> nat" where
  "parsePosition tok =
     (case map parseNat (splitOn 0x3A tok) of
        [Some bar, Some beat, Some sixteenth] \<Rightarrow> Inr (bar, beat, sixteenth)
      | _ \<Rightarrow> Inl (MalformedTimeToken tok))"

definition positionSeconds :: "real \<Rightarrow> jsstring \<Rightarrow> engine_error + real" where
  "positionSeconds tempo tok =
     (case parsePosition tok of
        Inl e \<Rightarrow> Inl e
      | Inr (bar, beat, sixteenth) \<Rightarrow>
          Inr (real bar * 4 * beatDuration tempo + real beat * beatDuration tempo
               + real sixteenth * (beatDuration tempo / 4)))"

datatype DurationToken = NoteFraction nat | Measures nat

definition parseDuration :: "jsstring \<Rightarrow> engine_error + DurationToken" where
  "parseDuration tok =
     (if tok = [] then Inl (MalformedTimeToken tok)
      else (case parseNat (butlast tok) of
              None \<Rightarrow> Inl (MalformedTimeToken tok)
            | Some N \<Rightarrow>
                if N = 0 then Inl (MalformedTimeToken tok)
                else if last tok = 0x6E then Inr (NoteFraction N)
                else if last tok = 0x6D then Inr (Measures N)
                else Inl (MalformedTimeToken tok)))"

definition durationSeconds :: "real \<Rightarrow> jsstring \<Rightarrow> engine_error + real" where
  "durationSeconds tempo tok =
     (case parseDuration tok of
        Inl e \<Rightarrow> Inl e
      | Inr (NoteFraction N) \<Rightarrow> Inr (4 * beatDuration tempo / real N)
      | Inr (Measures N) \<Rightarrow> Inr (real N * 4 * beatDuration tempo))"

section \<open>WavEncoder\<close>

text \<open>
  Modelled from the spec: the WavEncoder lives in services/audioEngine, which is not among
  the sources. Section 4.6: the input is a sample buffer, a sample rate and a channel count;
  the output is the canonical 44-byte RIFF/WAVE header (sample rate, channel count, 16-bit
  depth, byte rate, block alignment) and then every sample as \<open>round(sample*32767)\<close>
  clamped to the signed 16-bit range, little-endian, interleaved by channel. The buffer is
  one list of samples per channel; a buffer whose shape does not fit the channel count is
  the \<open>ExportError\<close> of section 7 (buffer length mismatch).
\<close>

definition u16le :: "16 word \<Rightarrow> blob" where
  "u16le w = [ucast w, ucast (drop_bit 8 w)]"

definition u32le :: "32 word \<Rightarrow> blob" where
  "u32le w = [ucast w, ucast (drop_bit 8 w), ucast (drop_bit 16 w), ucast (drop_bit 24 w)]"

definition ascii :: "string \<Rightarrow> blob" where
  "ascii s = map of_char s"

definition quantize :: "real \<Rightarrow> 16 word" where
  "quantize x = word_of_int (max (- 32768) (min 32767 (round (x * 32767))))"

definition wavHeader :: "nat \<Rightarrow> nat \<Rightarrow> nat \<Rightarrow> blob" where
  "wavHeader sampleRate channelCount dataBytes =
     ascii ''RIFF'' @ u32le (of_nat (36 + dataBytes)) @ ascii ''WAVE''
     @ ascii ''fmt '' @ u32le 16 @ u16le 1 @ u16le (of_nat channelCount)
     @ u32le (of_nat sampleRate) @ u32le (of_nat (sampleRate * channelCount * 2))
     @ u16le (of_nat (channelCount * 2)) @ u16le 16
     @ ascii ''data'' @ u32le (of_nat dataBytes)"

definition sampleCount :: "real list list \<Rightarrow> nat" where
  "sampleCount buffer = (case buffer of [] \<Rightarrow> 0 | ch # _ \<Rightarrow> length ch)"

definition interleave :: "real list list \<Rightarrow> real list" where
  "interleave buffer =
     concat (map (\<lambda>i. map (\<lambda>ch. ch ! i) buffer) [0..<sampleCount buffer])"

definition wavEncode :: "real list list \<Rightarrow> nat \<Rightarrow> nat \<Rightarrow> engine_error + blob" where
  "wavEncode buffer sampleRate channelCount =
     (if length buffer \<noteq> channelCount
         \<or> list_ex (\<lambda>ch. length ch \<noteq> sampleCount buffer) buffer
      then Inl ExportError
      else Inr (wavHeader sampleRate channelCount (sampleCount buffer * channelCount * 2)
                @ concat (map (\<lambda>x. u16le (quantize x)) (interleave buffer))))"

section \<open>The audio engine\<close>

text \<open>
  App.tsx drives the playback engine through the singleton \<open>audioEngine\<close> of
  services/audioEngine, which is not among the sources. The handlers of the App are
  therefore written over any engine: a state of type \<open>'e\<close> and the operations the App
  calls on it. \<open>initialize\<close> and the two exports are awaited, so a thrown exception and a
  rejected promise are the same to the App: the \<open>Some\<close> error or the \<open>None\<close> blob of
  the result. \<open>loadComposition\<close> is called and not awaited, so the two differ: an
  exception thrown by the call ends the caller, a promise that rejects later does not.
  \<open>clock\<close> is what the engine does by itself when its audio clock reaches the given
  time; the App never calls it.
\<close>

datatype load_result = Loaded | LoadThrew engine_error | LoadRejected engine_error

record 'e AudioEngine =
  initialize :: "'e \<Rightarrow> engine_error option \<times> 'e"
  stop :: "'e \<Rightarrow> 'e"
  play :: "'e \<Rightarrow> bool \<times> 'e"
  loadComposition :: "Composition \<Rightarrow> 'e \<Rightarrow> load_result \<times> 'e"
  exportMidi :: "Composition \<Rightarrow> 'e \<Rightarrow> blob option \<times> 'e"
  exportWav :: "Composition \<Rightarrow> 'e \<Rightarrow> blob option \<times> 'e"
  clock :: "real \<Rightarrow> 'e \<Rightarrow> 'e"

subsection \<open>Validation at load time\<close>

text \<open>
  Modelled from the spec: the validation of a Composition lives in services/audioEngine,
  which is not among the sources. Sections 3, 6 and 7: tempo must be positive
  (\<open>InvalidComposition\<close>), every startTime and duration token must parse under the
  TimeModel (\<open>MalformedTimeToken\<close>), every pitch, a note name with an octave such as
  \<open>C4\<close> or \<open>F#3\<close>, must map to a semitone index in 0..127 (\<open>PitchOutOfRange\<close>), and
  velocity is clamped to 0..1. The index follows the MIDI convention, in which \<open>C-1\<close> is 0
  and middle A, \<open>A4\<close>, is 69. A valid Composition yields its schedule: every NoteEvent
  of every Track with its start and length in seconds.
\<close>

definition letterSemitone :: "jschar \<Rightarrow> int option" where
  "letterSemitone c =
     (if c = 0x43 then Some 0 else if c = 0x44 then Some 2 else if c = 0x45 then Some 4
      else if c = 0x46 then Some 5 else if c = 0x47 then Some 7 else if c = 0x41 then Some 9
      else if c = 0x42 then Some 11 else None)"

definition parseOctave :: "jsstring \<Rightarrow> int option" where
  "parseOctave s =
     (case s of
        [] \<Rightarrow> None
      | c # cs \<Rightarrow> if c = 0x2D then map_option (\<lambda>n. - int n) (parseNat cs)
                  else map_option int (parseNat s))"

definition semitoneIndex :: "jsstring \<Rightarrow> int option" where
  "semitoneIndex s =
     (case s of
        [] \<Rightarrow> None
      | l # rest \<Rightarrow>
          (case letterSemitone l of
             None \<Rightarrow> None
           | Some base \<Rightarrow>
               (case rest of
                  [] \<Rightarrow> None
                | a # rest' \<Rightarrow>
                    if a = 0x23 then map_option (\<lambda>oct. 12 * (oct + 1) + base + 1) (parseOctave rest')
                    else if a = 0x62 then map_option (\<lambda>oct. 12 * (oct + 1) + base - 1) (parseOctave rest')
                    else map_option (\<lambda>oct. 12 * (oct + 1) + base) (parseOctave rest))))"

record ScheduledNote =
  startSeconds :: real
  lengthSeconds :: real
  instrumentKind :: Instrument
  pitch :: nat
  level :: real
  dispatched :: bool

definition scheduleNote :: "real \<Rightarrow> Instrument \<Rightarrow> NoteEvent \<Rightarrow> engine_error + ScheduledNote" where
  "scheduleNote tempo kind n =
     (case positionSeconds tempo (time n) of
        Inl e \<Rightarrow> Inl e
      | Inr start \<Rightarrow>
          (case durationSeconds tempo (duration n) of
             Inl e \<Rightarrow> Inl e
           | Inr len \<Rightarrow>
               (case semitoneIndex (note n) of
                  None \<Rightarrow> Inl (PitchOutOfRange (note n))
                | Some i \<Rightarrow>
                    if 0 \<le> i \<and> i \<le> 127
                    then Inr \<lparr>startSeconds = start, lengthSeconds = len, instrumentKind = kind,
                              pitch = nat i, level = max 0 (min 1 (velocity n)),
                              dispatched = False\<rparr>
                    else Inl (PitchOutOfRange (note n)))))"

fun collect :: "('a \<Rightarrow> engine_error + 'b) \<Rightarrow> 'a list \<Rightarrow> engine_error + 'b list" where
  "collect f [] = Inr []"
| "collect f (x # xs) =
     (case f x of
        Inl e \<Rightarrow> Inl e
      | Inr y \<Rightarrow> (case collect f xs of Inl e \<Rightarrow> Inl e | Inr ys \<Rightarrow> Inr (y # ys)))"

definition validateComposition :: "Composition \<Rightarrow> engine_error + ScheduledNote list" where
  "validateComposition c =
     (if bpm c \<le> 0 then Inl InvalidComposition
      else (case collect (\<lambda>t. collect (scheduleNote (bpm c) (instrument t)) (notes t)) (tracks c) of
              Inl e \<Rightarrow> Inl e
            | Inr perTrack \<Rightarrow> Inr (concat perTrack)))"

subsection \<open>Transport\<close>

text \<open>
  Modelled from the spec: the Transport and the VoiceBank live in services/audioEngine,
  which is not among the sources. Section 4.4: the states are \<open>STOPPED\<close> and \<open>PLAYING\<close>;
  \<open>load\<close> validates, stops a session that is playing and replaces the composition, all
  or nothing; \<open>play\<close> does nothing when no composition is loaded, stops a session that is
  playing, computes the schedule and starts the lookahead loop; \<open>stop\<close> halts the loop and
  releases every voice. \<open>sessions\<close> holds the schedule of every lookahead loop that is
  running, \<open>voices\<close> the voices that sound; a schedule whose loop is halted is dropped,
  and the next \<open>play\<close> computes it again from the top. The lookahead loop triggers, in every running
  schedule, the notes not yet dispatched whose start lies between now and the end of the
  window. Section 7: \<open>initialize\<close> fails with \<open>AudioInitError\<close> when the output device
  cannot start.
\<close>

datatype TransportState = STOPPED | PLAYING

record Engine =
  started :: bool
  loaded :: "Composition option"
  transport :: TransportState
  sessions :: "ScheduledNote list list"
  voices :: "ScheduledNote list"

definition newEngine :: Engine where
  "newEngine = \<lparr>started = False, loaded = None, transport = STOPPED, sessions = [], voices = []\<rparr>"

definition engineInitialize :: "bool \<Rightarrow> Engine \<Rightarrow> engine_error option \<times> Engine" where
  "engineInitialize deviceOk e =
     (if deviceOk then (None, e\<lparr>started := True\<rparr>) else (Some AudioInitError, e))"

definition engineStop :: "Engine \<Rightarrow> Engine" where
  "engineStop e = e\<lparr>transport := STOPPED, sessions := [], voices := []\<rparr>"

definition engineLoad :: "Composition \<Rightarrow> Engine \<Rightarrow> engine_error option \<times> Engine" where
  "engineLoad c e =
     (case validateComposition c of
        Inl err \<Rightarrow> (Some err, e)
      | Inr schedule \<Rightarrow> (None, (engineStop e)\<lparr>loaded := Some c\<rparr>))"

definition enginePlay :: "Engine \<Rightarrow> bool \<times> Engine" where
  "enginePlay e =
     (case loaded e of
        None \<Rightarrow> (False, e)
      | Some c \<Rightarrow>
          (case validateComposition c of
             Inl err \<Rightarrow> (False, e)
           | Inr schedule \<Rightarrow>
               (True, (engineStop e)\<lparr>transport := PLAYING,
                                    sessions := sessions (engineStop e) @ [schedule]\<rparr>)))"

definition due :: "real \<Rightarrow> real \<Rightarrow> ScheduledNote \<Rightarrow> bool" where
  "due window now n \<longleftrightarrow>
     \<not> dispatched n \<and> now \<le> startSeconds n \<and> startSeconds n \<le> now + window"

definition engineClock :: "real \<Rightarrow> real \<Rightarrow> Engine \<Rightarrow> Engine" where
  "engineClock window now e =
     (if transport e = PLAYING
      then e\<lparr>sessions :=
                map (map (\<lambda>n. if due window now n then n\<lparr>dispatched := True\<rparr> else n)) (sessions e),
             voices := voices e @ map (\<lambda>n. n\<lparr>dispatched := True\<rparr>)
                                     (filter (due window now) (concat (sessions e)))\<rparr>
      else e)"


text \<open>An engine at rest: stopped, no schedule running, no voice sounding.\<close>

definition idle :: "Engine \<Rightarrow> bool" where
  "idle e \<longleftrightarrow> transport e = STOPPED \<and> sessions e = [] \<and> voices e = []"

text \<open>
  Modelled from the spec: the exports live in services/audioEngine, which is not among
  the sources. Section 5: an export owns an independent synthesis state and shares with the
  Transport only the Composition, which it reads. The OfflineRenderer and the MidiEncoder
  are parameters: \<open>render\<close> gives the sample buffer of a composition, one list per channel,
  \<open>midi\<close> its MIDI bytes. The WAV export validates, renders and encodes the buffer at the
  given sample rate.
\<close>

definition engineExportWav ::
  "(Composition \<Rightarrow> real list list) \<Rightarrow> nat \<Rightarrow> Composition \<Rightarrow> Engine \<Rightarrow> blob option \<times> Engine" where
  "engineExportWav render sampleRate c e =
     (case validateComposition c of
        Inl err \<Rightarrow> (None, e)
      | Inr schedule \<Rightarrow>
          (case wavEncode (render c) sampleRate (length (render c)) of
             Inl err \<Rightarrow> (None, e)
           | Inr bytes \<Rightarrow> (Some bytes, e)))"

definition engineExportMidi ::
  "(Composition \<Rightarrow> blob) \<Rightarrow> Composition \<Rightarrow> Engine \<Rightarrow> blob option \<times> Engine" where
  "engineExportMidi midi c e =
     (case validateComposition c of
        Inl err \<Rightarrow> (None, e)
      | Inr schedule \<Rightarrow> (Some (midi c), e))"

text \<open>
  The engine of the spec as the App sees it. The spec says that a validation error is
  surfaced to the caller, not how: \<open>thrown\<close> says whether \<open>loadComposition\<close> throws it
  or returns a promise that rejects with it.
\<close>

definition surfaceLoad :: "bool \<Rightarrow> engine_error option \<Rightarrow> load_result" where
  "surfaceLoad thrown r =
     (case r of None \<Rightarrow> Loaded | Some err \<Rightarrow> if thrown then LoadThrew err else LoadRejected err)"

definition specEngine ::
  "bool \<Rightarrow> bool \<Rightarrow> real \<Rightarrow> nat \<Rightarrow> (Composition \<Rightarrow> real list list) \<Rightarrow> (Composition \<Rightarrow> blob)
   \<Rightarrow> Engine AudioEngine" where
  "specEngine deviceOk thrown window sampleRate render midi =
     \<lparr>initialize = engineInitialize deviceOk,
      stop = engineStop,
      play = enginePlay,
      loadComposition = (\<lambda>c e. case engineLoad c e of (r, e') \<Rightarrow> (surfaceLoad thrown r, e')),
      exportMidi = engineExportMidi midi,
      exportWav = engineExportWav render sampleRate,
      clock = engineClock window\<rparr>"

section \<open>App.tsx\<close>

text \<open>
  The state of the component: one field for each \<open>useState\<close>, and the state of the
  \<open>audioEngine\<close> singleton that the handlers act on.
\<close>

record 'e App =
  prompt :: jsstring
  status :: GenerationState
  composition :: "Composition option"
  isPlaying :: bool
  error :: "jsstring option"
  isExporting :: bool
  showPaywall :: bool
  pendingExport :: "ExportType option"
  engine :: 'e

definition initialApp :: "'e \<Rightarrow> 'e App" where
  "initialApp e =
     \<lparr>prompt = [], status = IDLE, composition = None, isPlaying = False, error = None,
      isExporting = False, showPaywall = False, pendingExport = None, engine = e\<rparr>"

text \<open>\<open>handleInteraction\<close>: \<open>await audioEngine.initialize()\<close>.\<close>

definition handleInteraction :: "'e AudioEngine \<Rightarrow> 'e App \<Rightarrow> engine_error option \<times> 'e App" where
  "handleInteraction ae s =
     (case initialize ae (engine s) of (r, e') \<Rightarrow> (r, s\<lparr>engine := e'\<rparr>))"

subsection \<open>handleGenerate\<close>

text \<open>
  \<open>handleGenerate\<close> runs in four parts, and other handlers can run between them. The
  first part ends at once on a blank prompt (\<open>Returned\<close>); otherwise it calls
  \<open>initialize\<close> and waits for it, holding the prompt it was called with
  (\<open>AwaitingInitialize\<close>), and when \<open>initialize\<close> rejects, which nothing catches, the
  handler is over (\<open>Rejected\<close>).
\<close>

datatype generate_step = Returned | Rejected engine_error | AwaitingInitialize jsstring

definition handleGenerate_start :: "'e AudioEngine \<Rightarrow> 'e App \<Rightarrow> generate_step \<times> 'e App" where
  "handleGenerate_start ae s =
     (if trim (prompt s) = [] then (Returned, s)
      else (case handleInteraction ae s of
              (Some err, s1) \<Rightarrow> (Rejected err, s1)
            | (None, s1) \<Rightarrow> (AwaitingInitialize (prompt s), s1)))"

text \<open>
  The second part runs when \<open>initialize\<close> has resolved: it sets the status, clears the
  error and the playing flag, stops the engine and calls the generation service.
\<close>

definition handleGenerate_initialized :: "'e AudioEngine \<Rightarrow> 'e App \<Rightarrow> 'e App" where
  "handleGenerate_initialized ae s =
     s\<lparr>status := THINKING, error := None, isPlaying := False, engine := stop ae (engine s)\<rparr>"

text \<open>
  The third part runs when the service answers. A composition is stored and a timer of
  500 ms is set. A rejection sets the status and then shows \<open>err.message\<close>, or the
  default message when that is missing or empty; when the service rejects with
  \<open>undefined\<close> or \<open>null\<close>, reading \<open>err.message\<close> throws inside the \<open>catch\<close> and the
  error is left as it is.
\<close>

datatype rejection = Nullish | ErrorValue "jsstring option"

definition handleGenerate_resolved :: "Composition \<Rightarrow> 'e App \<Rightarrow> 'e App" where
  "handleGenerate_resolved result s = s\<lparr>composition := Some result, status := COMPOSING\<rparr>"

definition handleGenerate_rejected :: "rejection \<Rightarrow> 'e App \<Rightarrow> 'e App" where
  "handleGenerate_rejected err s =
     (case err of
        Nullish \<Rightarrow> s\<lparr>status := ERROR\<rparr>
      | ErrorValue message \<Rightarrow>
          s\<lparr>status := ERROR,
            error := Some (case message of
                             None \<Rightarrow> js ''Failed to compose music.''
                           | Some m \<Rightarrow> if m = [] then js ''Failed to compose music.'' else m)\<rparr>)"

text \<open>
  The fourth part is the timer: it calls \<open>loadComposition\<close>, without awaiting it, and
  sets the status. The timer runs outside the \<open>try\<close>: when the call throws, nothing
  catches it and the status stays as it is; when the call returns a promise that rejects
  later, the status is set all the same.
\<close>

definition handleGenerate_timer :: "'e AudioEngine \<Rightarrow> Composition \<Rightarrow> 'e App \<Rightarrow> 'e App" where
  "handleGenerate_timer ae result s =
     (case loadComposition ae result (engine s) of
        (LoadThrew err, e') \<Rightarrow> s\<lparr>engine := e'\<rparr>
      | (Loaded, e') \<Rightarrow> s\<lparr>engine := e', status := READY\<rparr>
      | (LoadRejected err, e') \<Rightarrow> s\<lparr>engine := e', status := READY\<rparr>)"

text \<open>
  The four parts with nothing between them. \<open>gemini\<close> is the generation service: for a
  prompt, a composition or what it rejects with.
\<close>

definition handleGenerate ::
  "'e AudioEngine \<Rightarrow> (jsstring \<Rightarrow> rejection + Composition) \<Rightarrow> 'e App \<Rightarrow> 'e App" where
  "handleGenerate ae gemini s =
     (case handleGenerate_start ae s of
        (AwaitingInitialize p, s1) \<Rightarrow>
          (case gemini p of
             Inr result \<Rightarrow>
               handleGenerate_timer ae result
                 (handleGenerate_resolved result (handleGenerate_initialized ae s1))
           | Inl err \<Rightarrow> handleGenerate_rejected err (handleGenerate_initialized ae s1))
      | (Returned, s1) \<Rightarrow> s1
      | (Rejected err, s1) \<Rightarrow> s1)"

subsection \<open>Playback and export\<close>

definition togglePlayback :: "'e AudioEngine \<Rightarrow> 'e App \<Rightarrow> 'e App" where
  "togglePlayback ae s =
     (case composition s of
        None \<Rightarrow> s
      | Some c \<Rightarrow> (case play ae (engine s) of (playing, e') \<Rightarrow> s\<lparr>engine := e', isPlaying := playing\<rparr>))"

text \<open>The button beside the play button: \<open>audioEngine.stop(); setIsPlaying(false)\<close>.\<close>

definition resetPlayback :: "'e AudioEngine \<Rightarrow> 'e App \<Rightarrow> 'e App" where
  "resetPlayback ae s = s\<lparr>engine := stop ae (engine s), isPlaying := False\<rparr>"

definition handleSuggestion :: "jsstring \<Rightarrow> 'e App \<Rightarrow> 'e App" where
  "handleSuggestion text s = s\<lparr>prompt := text\<rparr>"

definition handleExportRequest :: "ExportType \<Rightarrow> 'e App \<Rightarrow> 'e App" where
  "handleExportRequest type s =
     (case composition s of
        None \<Rightarrow> s
      | Some c \<Rightarrow> s\<lparr>pendingExport := Some type, showPaywall := True\<rparr>)"

text \<open>The \<open>onClose\<close> of the paywall.\<close>

definition closePaywall :: "'e App \<Rightarrow> 'e App" where
  "closePaywall s = s\<lparr>showPaywall := False, pendingExport := None\<rparr>"

text \<open>
  \<open>executeExport\<close>. \<open>generateStandaloneHtml\<close> of services/htmlExport and \<open>Date.now()\<close>
  are parameters. An export that throws or rejects gives no blob. The handler runs in two
  parts, and other handlers can run while it waits for the export. The first part ends at
  the guard, or sets the flags and calls the export for the composition and the format it
  was called with; its result is what the export gave and the file name. The second part
  hands the file to the browser, or catches the error, and clears the flags.
\<close>

datatype export_result = NotStarted | Downloaded jsstring blob | ExportFailed

definition exportBlob ::
  "'e AudioEngine \<Rightarrow> (Composition \<Rightarrow> blob option) \<Rightarrow> ExportType \<Rightarrow> Composition \<Rightarrow> 'e
   \<Rightarrow> (blob option \<times> jsstring) \<times> 'e" where
  "exportBlob ae generateStandaloneHtml type c e =
     (case type of
        Midi \<Rightarrow> (case exportMidi ae c e of (b, e') \<Rightarrow> ((b, js ''.mid''), e'))
      | Wav \<Rightarrow> (case exportWav ae c e of (b, e') \<Rightarrow> ((b, js ''.wav''), e'))
      | Html \<Rightarrow> ((generateStandaloneHtml c, js ''.html''), e))"

definition executeExport_start ::
  "'e AudioEngine \<Rightarrow> (Composition \<Rightarrow> blob option) \<Rightarrow> nat \<Rightarrow> 'e App
   \<Rightarrow> (blob option \<times> jsstring) option \<times> 'e App" where
  "executeExport_start ae generateStandaloneHtml now s =
     (case (composition s, pendingExport s) of
        (Some c, Some type) \<Rightarrow>
          (case exportBlob ae generateStandaloneHtml type c (engine s) of
             ((b, extension), e') \<Rightarrow>
               (Some (b, replaceWhitespace (title c) @ js ''_'' @ decimal now @ extension),
                s\<lparr>showPaywall := False, isExporting := True, engine := e'\<rparr>))
      | _ \<Rightarrow> (None, s))"

definition executeExport_finish :: "blob option \<times> jsstring \<Rightarrow> 'e App \<Rightarrow> export_result \<times> 'e App" where
  "executeExport_finish outcome s =
     (case outcome of
        (Some b, filename) \<Rightarrow>
          (Downloaded filename b, s\<lparr>isExporting := False, pendingExport := None\<rparr>)
      | (None, filename) \<Rightarrow>
          (ExportFailed,
           s\<lparr>error := Some (js ''Export failed. Please try again.''),
             isExporting := False, pendingExport := None\<rparr>))"

text \<open>The two parts with nothing between them.\<close>

definition executeExport ::
  "'e AudioEngine \<Rightarrow> (Composition \<Rightarrow> blob option) \<Rightarrow> nat \<Rightarrow> 'e App \<Rightarrow> export_result \<times> 'e App" where
  "executeExport ae generateStandaloneHtml now s =
     (case executeExport_start ae generateStandaloneHtml now s of
        (None, s') \<Rightarrow> (NotStarted, s')
      | (Some outcome, s1) \<Rightarrow> executeExport_finish outcome s1)"

subsection \<open>Executions\<close>

text \<open>
  Everything that can happen to the component, in any order: the user edits the prompt,
  clicks, \<open>initialize\<close> resolves, the generation service answers, a timer fires, an
  export settles, the audio clock advances.
\<close>

datatype event =
    Interaction
  | EditPrompt jsstring
  | Generate
  | GenerateInitialized
  | GeneratorResolved Composition
  | GeneratorRejected rejection
  | LoadTimer Composition
  | TogglePlayback
  | ResetPlayback
  | ExportRequest ExportType
  | ClosePaywall
  | ExecuteExport nat
  | ExportSettled "blob option \<times> jsstring"
  | AudioClock real

fun step :: "'e AudioEngine \<Rightarrow> (Composition \<Rightarrow> blob option) \<Rightarrow> 'e App \<Rightarrow> event \<Rightarrow> 'e App" where
  "step ae html s Interaction = snd (handleInteraction ae s)"
| "step ae html s (EditPrompt text) = handleSuggestion text s"
| "step ae html s Generate = snd (handleGenerate_start ae s)"
| "step ae html s GenerateInitialized = handleGenerate_initialized ae s"
| "step ae html s (GeneratorResolved result) = handleGenerate_resolved result s"
| "step ae html s (GeneratorRejected err) = handleGenerate_rejected err s"
| "step ae html s (LoadTimer result) = handleGenerate_timer ae result s"
| "step ae html s TogglePlayback = togglePlayback ae s"
| "step ae html s ResetPlayback = resetPlayback ae s"
| "step ae html s (ExportRequest type) = handleExportRequest type s"
| "step ae html s ClosePaywall = closePaywall s"
| "step ae html s (ExecuteExport now) = snd (executeExport_start ae html now s)"
| "step ae html s (ExportSettled outcome) = snd (executeExport_finish outcome s)"
| "step ae html s (AudioClock now) = s\<lparr>engine := clock ae now (engine s)\<rparr>"

definition run :: "'e AudioEngine \<Rightarrow> (Composition \<Rightarrow> blob option) \<Rightarrow> event list \<Rightarrow> 'e App \<Rightarrow> 'e App" where
  "run ae html events s = foldl (step ae html) s events"

section \<open>Example inputs\<close>

text \<open>
  The composition of the spec's concrete scenario: tempo 120, one track, one note, middle
  A, a quarter note at \<open>0:0:0\<close> with velocity 0.8. \<open>brokenTune\<close> is the same with tempo 0.
\<close>

definition demoTune :: Composition where
  "demoTune =
     \<lparr>title = js ''Night  Drive'', bpm = 120, scale = js ''A minor'', mood = js ''calm'',
      tracks = [\<lparr>name = js ''Lead'', instrument = Synth,
                 notes = [\<lparr>note = js ''A4'', duration = js ''4n'', time = js ''0:0:0'',
                           velocity = 8 / 10\<rparr>],
                 color = js ''#6366f1''\<rparr>],
      description = js ''One note''\<rparr>"

definition brokenTune :: Composition where
  "brokenTune = demoTune\<lparr>bpm := 0\<rparr>"

definition demoEngine :: "Engine AudioEngine" where
  "demoEngine = specEngine True True (1 / 10) 44100 (\<lambda>c. [replicate 4 0]) (\<lambda>c. ascii ''MThd'')"

definition demoHtml :: "Composition \<Rightarrow> blob option" where
  "demoHtml c = Some (ascii ''<html>'')"

text \<open>
  An App in which \<open>demoTune\<close> is loaded and playing, and an execution in which the user
  presses play again while the generation service is still working on a second prompt.
\<close>

definition playingApp :: "Engine App" where
  "playingApp =
     (initialApp (snd (enginePlay (newEngine\<lparr>started := True, loaded := Some demoTune\<rparr>))))
       \<lparr>prompt := js ''fast drums'', status := READY, composition := Some demoTune,
        isPlaying := True\<rparr>"

definition exportingApp :: "ExportType \<Rightarrow> Composition \<Rightarrow> Engine App" where
  "exportingApp type c =
     playingApp\<lparr>composition := Some c, pendingExport := Some type, showPaywall := True\<rparr>"


text \<open>
  An engine that only records, in order, the calls the App makes on it; every call
  succeeds.
\<close>

datatype engine_call =
    CallInitialize
  | CallStop
  | CallPlay
  | CallLoad Composition
  | CallExportMidi Composition
  | CallExportWav Composition

definition recorder :: "engine_call list AudioEngine" where
  "recorder =
     \<lparr>initialize = (\<lambda>calls. (None, calls @ [CallInitialize])),
      stop = (\<lambda>calls. calls @ [CallStop]),
      play = (\<lambda>calls. (True, calls @ [CallPlay])),
      loadComposition = (\<lambda>c calls. (Loaded, calls @ [CallLoad c])),
      exportMidi = (\<lambda>c calls. (Some [], calls @ [CallExportMidi c])),
      exportWav = (\<lambda>c calls. (Some [], calls @ [CallExportWav c])),
      clock = (\<lambda>now calls. calls)\<rparr>"

section \<open>Lemmas on strings and tokens\<close>

lemma dropWhile_all_iff: "(\<forall>x \<in> set (dropWhile P xs). P x) \<longleftrightarrow> (\<forall>x \<in> set xs. P x)"
  by (induction xs) auto

lemma trim_Nil_iff: "trim s = [] \<longleftrightarrow> (\<forall>c \<in> set s. isWhiteSpace c)"
  by (simp add: trim_def dropWhile_eq_Nil_conv dropWhile_all_iff)

lemma unat_digitChar: "d < 10 \<Longrightarrow> unat (digitChar d) = 48 + d"
  unfolding digitChar_def unat_of_nat by simp

lemma isDigit_digitChar: "d < 10 \<Longrightarrow> isDigit (digitChar d)"
  by (simp add: isDigit_def word_le_nat_alt unat_digitChar)

lemma digitValue_digitChar: "d < 10 \<Longrightarrow> digitValue (digitChar d) = d"
  by (simp add: digitValue_def unat_digitChar)

lemma decimal_nonempty: "decimal n \<noteq> []"
  by (subst decimal.simps) simp

lemma decimal_digits: "list_all isDigit (decimal n)"
  by (induction n rule: decimal.induct) (subst decimal.simps, simp add: isDigit_digitChar)

lemma decimal_value: "foldl (\<lambda>acc d. 10 * acc + digitValue d) 0 (decimal n) = n"
  by (induction n rule: decimal.induct) (subst decimal.simps, simp add: digitValue_digitChar)

lemma parseNat_decimal: "parseNat (decimal n) = Some n"
  by (simp add: parseNat_def decimal_nonempty decimal_digits decimal_value)

lemma isDigit_not_colon: "isDigit c \<Longrightarrow> c \<noteq> 0x3A"
  by (auto simp: isDigit_def)

lemma splitOn_no_sep: "sep \<notin> set xs \<Longrightarrow> splitOn sep xs = [xs]"
  by (induction xs) auto

lemma splitOn_append: "sep \<notin> set xs \<Longrightarrow> splitOn sep (xs @ sep # ys) = xs # splitOn sep ys"
  by (induction xs) auto

lemma colon_notin_digits: "parseNat ds = Some n \<Longrightarrow> 0x3A \<notin> set ds"
  using isDigit_not_colon by (auto simp: parseNat_def list_all_iff split: if_splits)

lemma parsePosition_digits:
  assumes "parseNat bs = Some bar" and "parseNat ts = Some beat" and "parseNat xs = Some six"
  shows "parsePosition (bs @ 0x3A # ts @ 0x3A # xs) = Inr (bar, beat, six)"
  using assms
  by (simp add: parsePosition_def splitOn_append splitOn_no_sep colon_notin_digits)

lemma parseDuration_note:
  "parseNat ns = Some N \<Longrightarrow> 0 < N \<Longrightarrow> parseDuration (ns @ [0x6E]) = Inr (NoteFraction N)"
  by (simp add: parseDuration_def)

lemma parseDuration_measures:
  "parseNat ns = Some N \<Longrightarrow> 0 < N \<Longrightarrow> parseDuration (ns @ [0x6D]) = Inr (Measures N)"
  by (simp add: parseDuration_def)

section \<open>TimeModel: tokens to seconds\<close>

text \<open>
  C8. For a tempo above 0, every position token \<open>bar:beat:sixteenth\<close> whose three
  components are decimal numerals is \<open>bar*4*beatDuration + beat*beatDuration +
  sixteenth*(beatDuration/4)\<close> seconds, where \<open>beatDuration = 60/tempo\<close>; for every
  numeral N above 0 the duration token \<open>Nn\<close> is \<open>4*beatDuration/N\<close> seconds and \<open>Nm\<close>
  is \<open>N*4*beatDuration\<close> seconds; and every natural number has its numeral.
\<close>

theorem timeModel_seconds:
  assumes "0 < tempo"
  shows "beatDuration tempo = 60 / tempo
         \<and> parseNat (decimal k) = Some k
         \<and> (parseNat bs = Some bar \<and> parseNat ts = Some beat \<and> parseNat xs = Some sixteenth \<longrightarrow>
               positionSeconds tempo (bs @ js '':'' @ ts @ js '':'' @ xs)
                 = Inr (real bar * 4 * beatDuration tempo + real beat * beatDuration tempo
                        + real sixteenth * (beatDuration tempo / 4)))
         \<and> (parseNat ns = Some N \<and> 0 < N \<longrightarrow>
               durationSeconds tempo (ns @ js ''n'') = Inr (4 * beatDuration tempo / real N)
               \<and> durationSeconds tempo (ns @ js ''m'') = Inr (real N * 4 * beatDuration tempo))"
  by (simp add: positionSeconds_def durationSeconds_def parsePosition_digits
        parseDuration_note parseDuration_measures parseNat_decimal beatDuration_def)

theorem timeModel_seconds_witness:
  "(0::real) < 120
   \<and> beatDuration 120 = 1 / 2
   \<and> parseNat (js ''1'') = Some 1 \<and> parseNat (js ''02'') = Some 2 \<and> parseNat (js ''3'') = Some 3
   \<and> positionSeconds 120 (js ''1:02:3'') = Inr (27 / 8)
   \<and> parseNat (js ''4'') = Some 4
   \<and> durationSeconds 120 (js ''4n'') = Inr (1 / 2)
   \<and> durationSeconds 120 (js ''4m'') = Inr 8"
  using timeModel_seconds [of 120 1 "js ''1''" 1 "js ''02''" 2 "js ''3''" 3 "js ''4''" 4]
  by (simp add: parseNat_def isDigit_def digitValue_def beatDuration_def)

section \<open>WavEncoder: the length of the output\<close>

lemma length_u16le: "length (u16le w) = 2"
  by (simp add: u16le_def)

lemma length_u32le: "length (u32le w) = 4"
  by (simp add: u32le_def)

lemma length_wavHeader: "length (wavHeader r c d) = 44"
  by (simp add: wavHeader_def ascii_def length_u16le length_u32le)

lemma length_concat_const:
  "(\<And>x. x \<in> set xs \<Longrightarrow> length (f x) = k) \<Longrightarrow> length (concat (map f xs)) = length xs * k"
  by (induction xs) auto

lemma length_interleave: "length (interleave buffer) = sampleCount buffer * length buffer"
  unfolding interleave_def by (subst length_concat_const [where k = "length buffer"]) auto

lemma length_samples: "length (concat (map (\<lambda>x. u16le (quantize x)) xs)) = length xs * 2"
  by (rule length_concat_const) (simp add: length_u16le)

lemma sampleCount_uniform:
  "\<forall>ch \<in> set buffer. length ch = S \<Longrightarrow> buffer \<noteq> [] \<Longrightarrow> sampleCount buffer = S"
  by (cases buffer) (auto simp: sampleCount_def)

text \<open>
  C7. A buffer of C channels with S samples each is encoded, and the encoded WAV has
  exactly \<open>44 + S*C*2\<close> bytes.
\<close>

theorem wavEncode_length:
  assumes "length buffer = C" and "\<forall>ch \<in> set buffer. length ch = S"
  shows "\<exists>bytes. wavEncode buffer rate C = Inr bytes \<and> length bytes = 44 + S * C * 2"
proof (cases "buffer = []")
  case True
  with assms show ?thesis
    by (simp add: wavEncode_def length_wavHeader interleave_def sampleCount_def)
next
  case False
  with assms have S: "sampleCount buffer = S"
    by (simp add: sampleCount_uniform)
  from assms S have ok: "\<not> list_ex (\<lambda>ch. length ch \<noteq> sampleCount buffer) buffer"
    by (simp add: list_ex_iff)
  show ?thesis using assms(1) ok S
    by (simp add: wavEncode_def length_wavHeader length_samples length_interleave)
qed

theorem wavEncode_length_witness:
  "length [[0, 1 / 2, - 1], [1, 0, 0 :: real]] = 2
   \<and> list_all (\<lambda>ch. length ch = 3) [[0, 1 / 2, - 1], [1, 0, 0 :: real]]
   \<and> (\<exists>bytes. wavEncode [[0, 1 / 2, - 1], [1, 0, 0]] 44100 2 = Inr bytes \<and> length bytes = 56)"
  using wavEncode_length [of "[[0, 1 / 2, - 1], [1, 0, 0]]" 2 3 44100] by simp

section \<open>The handlers of the App\<close>

text \<open>
  C9. When the prompt is empty or holds only white space, \<open>handleGenerate\<close> returns at
  its first line: it does not reach the call of the generation service, and the whole
  state, with the status, the composition, the error, the playing flag and the engine, is
  as before, whatever the engine and the service are.
\<close>

theorem handleGenerate_blank_prompt:
  assumes "\<forall>c \<in> set (prompt s). isWhiteSpace c"
  shows "handleGenerate_start ae s = (Returned, s) \<and> handleGenerate ae gemini s = s"
  using assms by (simp add: handleGenerate_def handleGenerate_start_def trim_Nil_iff)

theorem handleGenerate_blank_prompt_witness:
  "list_all isWhiteSpace
     (prompt ((initialApp newEngine)\<lparr>prompt := [0x20, 0x09, 0x2003], isPlaying := True\<rparr>))
   \<and> handleGenerate_start demoEngine
        ((initialApp newEngine)\<lparr>prompt := [0x20, 0x09, 0x2003], isPlaying := True\<rparr>)
       = (Returned, (initialApp newEngine)\<lparr>prompt := [0x20, 0x09, 0x2003], isPlaying := True\<rparr>)
   \<and> handleGenerate demoEngine (\<lambda>p. Inr demoTune)
        ((initialApp newEngine)\<lparr>prompt := [0x20, 0x09, 0x2003], isPlaying := True\<rparr>)
       = (initialApp newEngine)\<lparr>prompt := [0x20, 0x09, 0x2003], isPlaying := True\<rparr>"
  using handleGenerate_blank_prompt
    [of "(initialApp newEngine)\<lparr>prompt := [0x20, 0x09, 0x2003], isPlaying := True\<rparr>"
        demoEngine "\<lambda>p. Inr demoTune"]
  by (simp add: isWhiteSpace_def)

text \<open>
  C2. When no composition is loaded, \<open>togglePlayback\<close> changes nothing: the engine, and
  with it the transport and its voices, is as before, and so is the playing flag, whatever
  the engine is.
\<close>

theorem togglePlayback_without_composition:
  assumes "composition s = None"
  shows "togglePlayback ae s = s
         \<and> engine (togglePlayback ae s) = engine s
         \<and> isPlaying (togglePlayback ae s) = isPlaying s"
  using assms by (simp add: togglePlayback_def)

theorem togglePlayback_without_composition_witness:
  "composition (initialApp newEngine) = None
   \<and> togglePlayback demoEngine (initialApp newEngine) = initialApp newEngine
   \<and> transport (engine (togglePlayback demoEngine (initialApp newEngine))) = STOPPED
   \<and> voices (engine (togglePlayback demoEngine (initialApp newEngine))) = []
   \<and> isPlaying (togglePlayback demoEngine (initialApp newEngine)) = False"
  using togglePlayback_without_composition [of "initialApp newEngine" demoEngine]
  by (simp add: initialApp_def newEngine_def)

section \<open>Evaluating the examples\<close>

lemmas timeToken_defs = positionSeconds_def parsePosition_def parseNat_def isDigit_def
  digitValue_def beatDuration_def durationSeconds_def parseDuration_def

lemmas pitch_defs = semitoneIndex_def letterSemitone_def parseOctave_def parseNat_def
  isDigit_def digitValue_def

lemmas handler_defs = handleInteraction_def handleSuggestion_def handleGenerate_start_def
  handleGenerate_initialized_def handleGenerate_resolved_def handleGenerate_rejected_def handleGenerate_timer_def
  togglePlayback_def resetPlayback_def handleExportRequest_def closePaywall_def

lemmas engine_defs = engineInitialize_def engineStop_def engineLoad_def enginePlay_def
  engineClock_def due_def

lemma specEngine_simps [simp]:
  "initialize (specEngine ok th w r render midi) = engineInitialize ok"
  "stop (specEngine ok th w r render midi) = engineStop"
  "play (specEngine ok th w r render midi) = enginePlay"
  "loadComposition (specEngine ok th w r render midi) c e
     = (surfaceLoad th (fst (engineLoad c e)), snd (engineLoad c e))"
  "exportMidi (specEngine ok th w r render midi) = engineExportMidi midi"
  "exportWav (specEngine ok th w r render midi) = engineExportWav render r"
  "clock (specEngine ok th w r render midi) = engineClock w"
  by (simp_all add: specEngine_def split_beta)

lemma validate_demoTune:
  "validateComposition demoTune =
     Inr [\<lparr>startSeconds = 0, lengthSeconds = 1 / 2, instrumentKind = Synth, pitch = 69,
           level = 8 / 10, dispatched = False\<rparr>]"
  by (simp add: validateComposition_def demoTune_def scheduleNote_def timeToken_defs pitch_defs)

lemma validate_brokenTune: "validateComposition brokenTune = Inl InvalidComposition"
  by (simp add: validateComposition_def brokenTune_def demoTune_def)

lemma validate_title: "validateComposition (c\<lparr>title := t\<rparr>) = validateComposition c"
  by (simp add: validateComposition_def)

lemma engineExportMidi_engine: "snd (engineExportMidi midi c e) = e"
  by (simp add: engineExportMidi_def split: sum.splits)

lemma engineExportWav_engine: "snd (engineExportWav render rate c e) = e"
  by (simp add: engineExportWav_def split: sum.splits)

lemma playingApp_transport: "transport (engine playingApp) = PLAYING"
  by (simp add: playingApp_def initialApp_def newEngine_def engine_defs validate_demoTune)

lemma title_demoTune: "title demoTune = js ''Night  Drive''"
  by (simp add: demoTune_def)

lemma executeExport_midi_demo:
  "executeExport demoEngine demoHtml 42 (exportingApp Midi demoTune)
     = (Downloaded (js ''Night_Drive_42.mid'') (ascii ''MThd''),
        playingApp\<lparr>composition := Some demoTune, pendingExport := None, showPaywall := False\<rparr>)"
  by (simp add: executeExport_def executeExport_start_def executeExport_finish_def
        exportBlob_def exportingApp_def demoEngine_def engineExportMidi_def validate_demoTune replaceWhitespace_def isWhiteSpace_def
        decimal.simps digitChar_def playingApp_def initialApp_def title_demoTune)

lemma executeExport_wav_broken:
  "executeExport demoEngine demoHtml 42 (exportingApp Wav brokenTune)
     = (ExportFailed,
        playingApp\<lparr>composition := Some brokenTune, pendingExport := None, showPaywall := False,
                   error := Some (js ''Export failed. Please try again.'')\<rparr>)"
  by (simp add: executeExport_def executeExport_start_def executeExport_finish_def
        exportBlob_def exportingApp_def demoEngine_def engineExportWav_def validate_brokenTune playingApp_def initialApp_def)

lemma playingApp_isPlaying: "isPlaying playingApp"
  by (simp add: playingApp_def)

lemma engine_exportingApp: "engine (exportingApp type c) = engine playingApp"
  by (simp add: exportingApp_def)

section \<open>Exports\<close>

text \<open>
  C10. Every call of \<open>executeExport\<close> that gets past its guard, whether it hands a file
  to the browser or catches an error, leaves the exporting flag false and no pending
  export, and the next export request is accepted.
\<close>

theorem executeExport_clears_flags:
  assumes "executeExport ae html now s = (r, s')" and "r \<noteq> NotStarted"
  shows "isExporting s' = False \<and> pendingExport s' = None
         \<and> pendingExport (handleExportRequest type s') = Some type
         \<and> isExporting (snd (executeExport_finish outcome s2)) = False
         \<and> pendingExport (snd (executeExport_finish outcome s2)) = None"
proof -
  from assms obtain c t out s1 where
    guard: "composition s = Some c" "pendingExport s = Some t"
    and start: "executeExport_start ae html now s = (Some out, s1)"
    and finish: "executeExport_finish out s1 = (r, s')"
    by (auto simp: executeExport_def executeExport_start_def split: option.splits prod.splits)
  from guard start have "composition s1 = Some c"
    by (auto simp: executeExport_start_def split: prod.splits)
  with finish have "isExporting s' = False" "pendingExport s' = None" "composition s' = Some c"
    by (auto simp: executeExport_finish_def split: option.splits prod.splits)
  moreover have "isExporting (snd (executeExport_finish outcome s2)) = False"
    "pendingExport (snd (executeExport_finish outcome s2)) = None"
    by (simp_all add: executeExport_finish_def split: option.splits prod.splits)
  ultimately show ?thesis
    by (simp add: handleExportRequest_def)
qed

theorem executeExport_clears_flags_witness:
  "executeExport demoEngine demoHtml 42 (exportingApp Midi demoTune)
     = (Downloaded (js ''Night_Drive_42.mid'') (ascii ''MThd''),
        playingApp\<lparr>composition := Some demoTune, pendingExport := None, showPaywall := False\<rparr>)
   \<and> isExporting (snd (executeExport demoEngine demoHtml 42 (exportingApp Midi demoTune))) = False
   \<and> pendingExport (snd (executeExport demoEngine demoHtml 42 (exportingApp Midi demoTune))) = None
   \<and> fst (executeExport demoEngine demoHtml 42 (exportingApp Wav brokenTune)) = ExportFailed
   \<and> isExporting (snd (executeExport demoEngine demoHtml 42 (exportingApp Wav brokenTune))) = False
   \<and> pendingExport (snd (executeExport demoEngine demoHtml 42 (exportingApp Wav brokenTune))) = None
   \<and> pendingExport (handleExportRequest Html
        (snd (executeExport demoEngine demoHtml 42 (exportingApp Wav brokenTune)))) = Some Html
   \<and> isExporting (snd (executeExport_finish (None, js ''x.wav'')
        (playingApp\<lparr>isExporting := True, pendingExport := Some Wav\<rparr>))) = False
   \<and> pendingExport (snd (executeExport_finish (None, js ''x.wav'')
        (playingApp\<lparr>isExporting := True, pendingExport := Some Wav\<rparr>))) = None"
  using executeExport_clears_flags
          [OF executeExport_midi_demo, of Html "(None, js ''x.wav'')"
             "playingApp\<lparr>isExporting := True, pendingExport := Some Wav\<rparr>"]
        executeExport_clears_flags
          [OF executeExport_wav_broken, of Html "(None, js ''x.wav'')"
             "playingApp\<lparr>isExporting := True, pendingExport := Some Wav\<rparr>"]
  by (simp add: executeExport_midi_demo executeExport_wav_broken)

text \<open>
  What a failed export does to the App, for any engine: it closes the paywall, sets the
  error message and clears the two export flags; the composition, the playing flag, the
  status and the prompt are as before, and the engine is what the one export call left.
  \<open>executeExport\<close> makes no other call on the engine.
\<close>

lemma executeExport_failure_app_state:
  assumes "executeExport ae html now s = (ExportFailed, s')"
  shows "\<exists>c t. composition s = Some c \<and> pendingExport s = Some t
           \<and> s' = s\<lparr>showPaywall := False,
                     engine := snd (exportBlob ae html t c (engine s)),
                     error := Some (js ''Export failed. Please try again.''),
                     isExporting := False, pendingExport := None\<rparr>"
proof -
  from assms obtain c t out s1 where
    guard: "composition s = Some c" "pendingExport s = Some t"
    and start: "executeExport_start ae html now s = (Some out, s1)"
    and finish: "executeExport_finish out s1 = (ExportFailed, s')"
    by (auto simp: executeExport_def executeExport_start_def split: option.splits prod.splits)
  from finish have s': "s' = s1\<lparr>error := Some (js ''Export failed. Please try again.''),
                                  isExporting := False, pendingExport := None\<rparr>"
    by (auto simp: executeExport_finish_def split: option.splits prod.splits)
  from guard start have
    s1: "s1 = s\<lparr>showPaywall := False, isExporting := True,
                  engine := snd (exportBlob ae html t c (engine s))\<rparr>"
    by (auto simp: executeExport_start_def split: prod.splits)
  from guard show ?thesis
    by (simp add: s' s1)
qed

section \<open>The calls on the engine around a generation\<close>

text \<open>
  The order of the calls in \<open>handleGenerate\<close>, for any engine: the engine is stopped
  after \<open>initialize\<close> and before the generation service is called, and the composition
  is loaded into the engine that this left, when nothing else runs in between.
\<close>

lemma handleGenerate_engine_order:
  assumes "trim (prompt s) \<noteq> []" and "initialize ae (engine s) = (None, e1)"
    and "gemini (prompt s) = Inr result"
  shows "engine (handleGenerate ae gemini s) = snd (loadComposition ae result (stop ae e1))"
  using assms
  by (auto simp: handleGenerate_def handler_defs split: prod.splits load_result.splits)

text \<open>
  \<open>togglePlayback\<close> is the only handler that calls \<open>play\<close>: in an execution without it,
  whatever else happens, the App makes no \<open>play\<close> call.
\<close>

lemma recorder_simps [simp]:
  "initialize recorder calls = (None, calls @ [CallInitialize])"
  "stop recorder calls = calls @ [CallStop]"
  "play recorder calls = (True, calls @ [CallPlay])"
  "loadComposition recorder c calls = (Loaded, calls @ [CallLoad c])"
  "exportMidi recorder c calls = (Some [], calls @ [CallExportMidi c])"
  "exportWav recorder c calls = (Some [], calls @ [CallExportWav c])"
  "clock recorder now calls = calls"
  by (simp_all add: recorder_def)

lemma step_without_toggle:
  assumes "ev \<noteq> TogglePlayback"
  shows "\<exists>cs. engine (step recorder html s ev) = engine s @ cs \<and> CallPlay \<notin> set cs"
proof (cases ev)
  case (ExecuteExport now)
  then show ?thesis
    by (cases "composition s"; cases "pendingExport s")
       (auto simp: executeExport_start_def exportBlob_def split: ExportType.splits)
next
  case (ExportSettled outcome)
  then show ?thesis
    by (auto simp: executeExport_finish_def split: prod.splits option.splits)
qed (use assms in \<open>auto simp: handler_defs split: option.splits rejection.splits\<close>)

lemma run_without_toggle:
  assumes "TogglePlayback \<notin> set events"
  shows "\<exists>cs. engine (run recorder html events s) = engine s @ cs \<and> CallPlay \<notin> set cs"
  using assms
proof (induction events rule: rev_induct)
  case Nil
  then show ?case by (simp add: run_def)
next
  case (snoc ev events)
  then obtain cs where cs: "engine (run recorder html events s) = engine s @ cs"
    "CallPlay \<notin> set cs"
    by auto
  from snoc.prems have "ev \<noteq> TogglePlayback" by auto
  from step_without_toggle [OF this, of html "run recorder html events s"] obtain ds where
    "engine (step recorder html (run recorder html events s) ev)
       = engine (run recorder html events s) @ ds" "CallPlay \<notin> set ds"
    by auto
  with cs have "engine (run recorder html (events @ [ev]) s) = engine s @ (cs @ ds)"
    "CallPlay \<notin> set (cs @ ds)"
    by (simp_all add: run_def)
  then show ?case by blast
qed


text \<open>
  Without a composition in the App the engine of the spec is at rest, at every point of
  every execution: \<open>togglePlayback\<close> is the only handler that calls \<open>play\<close>, and it
  returns at its guard.
\<close>

lemma composition_step:
  "composition (step ae html s ev) = None \<Longrightarrow> composition s = None"
  by (cases ev)
     (auto simp: handler_defs executeExport_start_def executeExport_finish_def
           split: prod.splits option.splits if_splits load_result.splits rejection.splits)

lemma exportBlob_spec_engine:
  "snd (exportBlob (specEngine ok th w r render midi) html type c e) = e"
  by (cases type)
     (simp_all add: exportBlob_def split_beta engineExportMidi_engine engineExportWav_engine)

lemma executeExport_start_spec_engine:
  "engine (snd (executeExport_start (specEngine ok th w r render midi) html now s)) = engine s"
  using exportBlob_spec_engine [of ok th w r render midi html]
  by (auto simp: executeExport_start_def split: option.splits prod.splits)
     (metis snd_conv)+

lemma executeExport_finish_engine: "engine (snd (executeExport_finish outcome s)) = engine s"
  by (simp add: executeExport_finish_def split: option.splits prod.splits)

lemma idle_step:
  assumes "composition s = None \<longrightarrow> idle (engine s)"
    and "composition (step (specEngine ok th w r render midi) html s ev) = None"
  shows "idle (engine (step (specEngine ok th w r render midi) html s ev))"
proof -
  from assms(2) have none: "composition s = None"
    by (rule composition_step)
  with assms(1) have i: "idle (engine s)" by simp
  show ?thesis
  proof (cases ev)
    case (ExecuteExport now)
    then show ?thesis using i by (simp add: executeExport_start_spec_engine)
  next
    case (ExportSettled outcome)
    then show ?thesis using i by (simp add: executeExport_finish_engine)
  qed (use i none in \<open>auto simp: idle_def handler_defs engine_defs surfaceLoad_def
         split: prod.splits option.splits if_splits sum.splits load_result.splits
                rejection.splits\<close>)
qed

lemma no_composition_engine_idle:
  "composition (run (specEngine ok th w r render midi) html events (initialApp newEngine)) = None
   \<Longrightarrow> idle (engine (run (specEngine ok th w r render midi) html events (initialApp newEngine)))"
proof (induction events rule: rev_induct)
  case Nil
  then show ?case by (simp add: run_def idle_def initialApp_def newEngine_def)
next
  case (snoc ev events)
  then show ?case
    using idle_step [of "run (specEngine ok th w r render midi) html events (initialApp newEngine)"
        ok th w r render midi html ev]
    by (simp add: run_def)
qed

section \<open>Validation and loading\<close>














end
